theory Spec2Isabelle
  imports Complex_Main
begin

section \<open>Python values used by the quote service\<close>

text \<open>
  The service is Python. Its \<^verbatim>\<open>float\<close> values are modelled by exact real numbers:
  the binary rounding of each arithmetic operation, infinities and NaN are not part of
  this model, and every statement below about a price, a mass or a time is a statement
  about the formulas of the code evaluated in exact arithmetic. Python's unbounded
  \<^verbatim>\<open>int\<close> is \<open>int\<close>; a \<^verbatim>\<open>str\<close> is a \<open>string\<close> of one-byte characters. An optional
  argument (\<^verbatim>\<open>None\<close> by default) is an \<open>option\<close>.
\<close>

datatype error =
    ValueError string
  | KeyError string
  | AttributeError string
  | ValidationError string
  | LibraryError string

text \<open>
  \<^verbatim>\<open>round(x, ndigits)\<close> rounds to the nearest multiple of \<open>10^-ndigits\<close>, a tie going
  to the even neighbour.
\<close>

definition round_half_even :: "real \<Rightarrow> int" where
  "round_half_even x =
     (let f = \<lfloor>x\<rfloor>; d = x - of_int f
      in if d < 1 / 2 then f else if 1 / 2 < d then f + 1 else if even f then f else f + 1)"

definition py_round :: "real \<Rightarrow> nat \<Rightarrow> real" where
  "py_round x ndigits = of_int (round_half_even (x * 10 ^ ndigits)) / 10 ^ ndigits"

text \<open>
  \<^verbatim>\<open>a or b\<close> yields \<open>b\<close> when \<open>a\<close> is falsy: \<^verbatim>\<open>None\<close>, the empty string, \<open>0\<close>
  and \<open>0.0\<close> are all falsy.
\<close>

definition or_str :: "string option \<Rightarrow> string \<Rightarrow> string" where
  "or_str a b = (case a of None \<Rightarrow> b | Some s \<Rightarrow> if s = [] then b else s)"

definition or_float :: "real option \<Rightarrow> real \<Rightarrow> real" where
  "or_float a b = (case a of None \<Rightarrow> b | Some x \<Rightarrow> if x = 0 then b else x)"

definition or_int :: "int option \<Rightarrow> int \<Rightarrow> int" where
  "or_int a b = (case a of None \<Rightarrow> b | Some n \<Rightarrow> if n = 0 then b else n)"

text \<open>
  A \<^verbatim>\<open>dict\<close> with string keys is an association list. \<^verbatim>\<open>d.get(k, default)\<close> never
  fails; \<^verbatim>\<open>d[k]\<close> raises \<^verbatim>\<open>KeyError\<close> on a missing key.
\<close>

definition dict_get :: "(string \<times> 'v) list \<Rightarrow> string \<Rightarrow> 'v \<Rightarrow> 'v" where
  "dict_get d k dflt = (case map_of d k of None \<Rightarrow> dflt | Some v \<Rightarrow> v)"

definition subscript :: "(string \<times> 'v) list \<Rightarrow> string \<Rightarrow> error + 'v" where
  "subscript d k = (case map_of d k of None \<Rightarrow> Inl (KeyError k) | Some v \<Rightarrow> Inr v)"

definition keys :: "(string \<times> 'v) list \<Rightarrow> string list" where
  "keys d = map fst d"

text \<open>Sequencing of steps that may raise: the first exception ends the computation.\<close>

definition ebind :: "error + 'a \<Rightarrow> ('a \<Rightarrow> error + 'b) \<Rightarrow> error + 'b" where
  "ebind m f = (case m of Inl e \<Rightarrow> Inl e | Inr a \<Rightarrow> f a)"

fun emap :: "('a \<Rightarrow> error + 'b) \<Rightarrow> 'a list \<Rightarrow> error + 'b list" where
  "emap f [] = Inr []"
| "emap f (x # xs) = ebind (f x) (\<lambda>y. ebind (emap f xs) (\<lambda>ys. Inr (y # ys)))"

subsection \<open>Strings\<close>

text \<open>\<^verbatim>\<open>str.lower\<close> on one-byte characters: the letters A to Z move to a to z.\<close>

definition lower_char :: "char \<Rightarrow> char" where
  "lower_char c =
     (case map_of (zip ''ABCDEFGHIJKLMNOPQRSTUVWXYZ'' ''abcdefghijklmnopqrstuvwxyz'') c of
        None \<Rightarrow> c
      | Some l \<Rightarrow> l)"

definition lower :: "string \<Rightarrow> string" where
  "lower s = map lower_char s"

text \<open>\<^verbatim>\<open>p.rfind(c)\<close>: the index of the last occurrence of \<open>c\<close>, or \<open>-1\<close>.\<close>

definition rfind :: "char \<Rightarrow> string \<Rightarrow> int" where
  "rfind c p =
     (if c \<in> set p then int (length p) - 1 - int (length (takeWhile (\<lambda>x. x \<noteq> c) (rev p)))
      else - 1)"

text \<open>
  \<^verbatim>\<open>os.path.splitext\<close> (POSIX): the extension starts at the last dot of the path, when
  that dot comes after the last \<^verbatim>\<open>/\<close> and some character between the two is not a dot
  (leading dots of the file name belong to the root).
\<close>

definition splitext :: "string \<Rightarrow> string \<times> string" where
  "splitext p =
     (let sepIndex = rfind CHR ''/'' p;
          dotIndex = rfind CHR ''.'' p
      in if sepIndex < dotIndex \<and>
            list_ex (\<lambda>x. x \<noteq> CHR ''.'')
              (take (nat (dotIndex - (sepIndex + 1))) (drop (nat (sepIndex + 1)) p))
         then (take (nat dotIndex) p, drop (nat dotIndex) p)
         else (p, []))"

text \<open>\<^verbatim>\<open>s.rsplit(c, 1)\<close>: split once, at the last occurrence of \<open>c\<close>.\<close>

definition rsplit1 :: "char \<Rightarrow> string \<Rightarrow> string list" where
  "rsplit1 c s =
     (if c \<in> set s
      then [rev (tl (dropWhile (\<lambda>x. x \<noteq> c) (rev s))), rev (takeWhile (\<lambda>x. x \<noteq> c) (rev s))]
      else [s])"

text \<open>\<^verbatim>\<open>s.split(c)\<close>: the pieces between the occurrences of \<open>c\<close>.\<close>

fun split_on :: "char \<Rightarrow> string \<Rightarrow> string list" where
  "split_on c [] = [[]]"
| "split_on c (x # xs) =
     (if x = c then [] # split_on c xs
      else (case split_on c xs of [] \<Rightarrow> [[x]] | w # ws \<Rightarrow> (x # w) # ws))"

text \<open>\<^verbatim>\<open>s.replace(c, "")\<close>: every occurrence of \<open>c\<close> is dropped.\<close>

definition remove_char :: "char \<Rightarrow> string \<Rightarrow> string" where
  "remove_char c s = filter (\<lambda>x. x \<noteq> c) s"

section \<open>quote/utils/quote\_engine.py\<close>

subsection \<open>Pricing tables\<close>

definition MATERIAL_RATES :: "(string \<times> real) list" where
  "MATERIAL_RATES =
     [(''PLA'', 0.025), (''PLA+'', 0.028), (''PETG'', 0.030), (''Nylon'', 0.060),
      (''CFNylon'', 0.100)]"

definition DENSITY_G_CM3 :: "(string \<times> real) list" where
  "DENSITY_G_CM3 =
     [(''PLA'', 1.24), (''PLA+'', 1.24), (''PETG'', 1.27), (''Nylon'', 1.15), (''CFNylon'', 1.20)]"

record preset =
  rec_layer_mm :: real
  speed_factor :: real

definition MATERIAL_PRESETS :: "(string \<times> preset) list" where
  "MATERIAL_PRESETS =
     [(''PLA'', \<lparr>rec_layer_mm = 0.20, speed_factor = 1.00\<rparr>),
      (''PLA+'', \<lparr>rec_layer_mm = 0.20, speed_factor = 0.95\<rparr>),
      (''PETG'', \<lparr>rec_layer_mm = 0.24, speed_factor = 0.85\<rparr>),
      (''Nylon'', \<lparr>rec_layer_mm = 0.24, speed_factor = 0.80\<rparr>),
      (''CFNylon'', \<lparr>rec_layer_mm = 0.28, speed_factor = 0.70\<rparr>)]"

text \<open>
  A machine profile. Every profile of the table has an \<^verbatim>\<open>hourly_rate\<close>; the engine
  still reads it with \<^verbatim>\<open>.get\<close> and a fallback, so the field is optional here.
\<close>

record machine_profile =
  mp_label :: string
  mp_cm3_per_hr :: real
  mp_hourly_rate :: "real option"

definition MACHINE_PROFILES :: "(string \<times> machine_profile) list" where
  "MACHINE_PROFILES =
     [(''BLENDED'',
         \<lparr>mp_label = ''Blended (FF 5M Pro + Kobra S1)'', mp_cm3_per_hr = 46.0,
          mp_hourly_rate = Some 8.0\<rparr>),
      (''FlashForge Adventurer 5M Pro'',
         \<lparr>mp_label = ''FlashForge Adventurer 5M Pro'', mp_cm3_per_hr = 50.0,
          mp_hourly_rate = Some 8.0\<rparr>),
      (''Anycubic Kobra S1'',
         \<lparr>mp_label = ''Anycubic Kobra S1'', mp_cm3_per_hr = 42.0,
          mp_hourly_rate = Some 8.0\<rparr>)]"

record defaults =
  d_material :: string
  d_layer_height_mm :: real
  d_infill_pct :: int
  d_machine :: string

definition DEFAULTS :: defaults where
  "DEFAULTS =
     \<lparr>d_material = ''PLA'', d_layer_height_mm = 0.20, d_infill_pct = 20,
      d_machine = ''BLENDED''\<rparr>"

definition HOURLY_RATE_FALLBACK :: real where
  "HOURLY_RATE_FALLBACK = 8.0"

definition BASE_FEE :: real where
  "BASE_FEE = 5.0"

definition POSTPROCESS_FEE :: real where
  "POSTPROCESS_FEE = 0.0"

subsection \<open>Time and price model\<close>

text \<open>
  The two factors of the time model. The engine computes each of them twice from the
  same expression, in \<^verbatim>\<open>_estimate_time_hours\<close> and in its \<^verbatim>\<open>debug\<close> block.
\<close>

definition layer_rel :: "real \<Rightarrow> real" where
  "layer_rel layer_mm = max 0.6 (min (0.20 / max layer_mm 0.10) 1.5)"

definition infill_mult :: "int \<Rightarrow> real" where
  "infill_mult infill_pct = 1.0 + (of_int infill_pct / 100.0) * 0.3"

definition estimate_time_hours :: "real \<Rightarrow> real \<Rightarrow> int \<Rightarrow> real \<Rightarrow> real \<Rightarrow> real" where
  "estimate_time_hours volume_cm3 layer_mm infill_pct machine_speed_cm3_hr material_speed_factor =
     (let effective_speed =
            max 0.000001 (machine_speed_cm3_hr * material_speed_factor / layer_rel layer_mm);
          est = (volume_cm3 / effective_speed) * infill_mult infill_pct
      in max 0.08 est)"

definition price :: "real \<Rightarrow> real \<Rightarrow> real \<Rightarrow> real \<Rightarrow> real" where
  "price rate_per_g grams time_hr hourly_rate =
     py_round (BASE_FEE + grams * rate_per_g + time_hr * hourly_rate + POSTPROCESS_FEE) 2"

subsection \<open>The mesh library\<close>

text \<open>
  The mesh comes from the \<^verbatim>\<open>trimesh\<close> library, which is not part of the service. A
  mesh is what the engine reads of it: \<^verbatim>\<open>is_empty\<close>, the signed \<^verbatim>\<open>volume\<close>, the
  \<^verbatim>\<open>area\<close>, the \<^verbatim>\<open>extents\<close> (\<^verbatim>\<open>None\<close> for a mesh without bounds, on which the
  engine's \<^verbatim>\<open>.tolist()\<close> raises) and the \<^verbatim>\<open>faces\<close>. The library's operations are
  parameters of the engine. An operation that mutates the mesh in place either returns
  or raises, and in both cases leaves some mesh behind.
\<close>

record mesh =
  is_empty :: bool
  volume :: real
  area :: real
  extents :: "real list option"
  faces :: "(nat \<times> nat \<times> nat) list"

datatype 'a outcome = Returned 'a | Raised 'a

record trimesh =
  load :: "string \<Rightarrow> string \<Rightarrow> error + mesh"
  remove_duplicate_faces :: "mesh \<Rightarrow> mesh outcome"
  remove_degenerate_faces :: "mesh \<Rightarrow> mesh outcome"
  remove_unreferenced_vertices :: "mesh \<Rightarrow> mesh outcome"
  process :: "bool \<Rightarrow> mesh \<Rightarrow> mesh outcome"

text \<open>
  The cleanup pass, \<^verbatim>\<open>try: ... except Exception: pass\<close>: the first step that raises
  ends the pass, and the engine goes on with the mesh as that step left it.
\<close>

definition cleanup :: "trimesh \<Rightarrow> mesh \<Rightarrow> mesh" where
  "cleanup tm m =
     (case remove_duplicate_faces tm m of
        Raised m1 \<Rightarrow> m1
      | Returned m1 \<Rightarrow>
          (case remove_degenerate_faces tm m1 of
             Raised m2 \<Rightarrow> m2
           | Returned m2 \<Rightarrow>
               (case remove_unreferenced_vertices tm m2 of
                  Raised m3 \<Rightarrow> m3
                | Returned m3 \<Rightarrow>
                    (case process tm True m3 of Raised m4 \<Rightarrow> m4 | Returned m4 \<Rightarrow> m4))))"

subsection \<open>The engine\<close>

record file_obj =
  file_name :: "string option"
  file_data :: string

datatype event = Read_file | Load_mesh

text \<open>
  The name of the uploaded file, \<^verbatim>\<open>getattr(file_obj, "name", "part")\<close>, and its
  extension, \<^verbatim>\<open>os.path.splitext(name)[1].lower()\<close>.
\<close>

definition name_of :: "file_obj \<Rightarrow> string" where
  "name_of file_obj = (case file_name file_obj of None \<Rightarrow> ''part'' | Some n \<Rightarrow> n)"

definition ext_of :: "string \<Rightarrow> string" where
  "ext_of name = lower (snd (splitext name))"

record material_info =
  mi_label :: string
  mi_rate_per_g :: real
  mi_density_g_cm3 :: real
  mi_rec_layer_mm :: real
  mi_speed_factor :: real

record pricing_model =
  pm_base_fee :: real
  pm_hourly_rate :: real
  pm_postprocess_fee :: real
  pm_machine_cm3_per_hr :: real
  pm_machine_label :: string
  pm_machine_key :: string

record debug_calc =
  dbg_layer_rel :: real
  dbg_infill_mult :: real
  dbg_cm3_per_hr_used :: real
  dbg_material_speed_factor :: real

record quote_result =
  q_filename :: string
  q_material :: string
  q_layer_height_mm :: real
  q_infill_pct :: int
  q_volume_cm3 :: real
  q_surface_cm2 :: real
  q_bbox_mm :: "real list"
  q_triangles :: int
  q_est_material_g :: real
  q_est_print_time_hr :: real
  q_price_usd :: real
  q_materials :: "(string \<times> material_info) list"
  q_pricing_model :: pricing_model
  q_debug :: debug_calc

text \<open>The per-material snapshot of the result, one entry per key of the rate table.\<close>

definition materials_snapshot :: "error + (string \<times> material_info) list" where
  "materials_snapshot =
     emap (\<lambda>m.
        ebind (subscript MATERIAL_RATES m) (\<lambda>r.
        ebind (subscript DENSITY_G_CM3 m) (\<lambda>d.
        ebind (subscript MATERIAL_PRESETS m) (\<lambda>p1.
        ebind (subscript MATERIAL_PRESETS m) (\<lambda>p2.
          Inr (m, \<lparr>mi_label = m, mi_rate_per_g = r, mi_density_g_cm3 = d,
                   mi_rec_layer_mm = rec_layer_mm p1, mi_speed_factor = speed_factor p2\<rparr>))))))
       (keys MATERIAL_RATES)"

text \<open>
  \<^verbatim>\<open>run_quote_engine\<close>. The result comes with the trace of what the call did to the
  outside: reading the file and handing its bytes to the mesh loader. The two errors
  the engine raises itself are both \<^verbatim>\<open>ValueError\<close>s, told apart by their message: the
  unsupported format and the empty mesh. An exception of the loader passes through.
\<close>

definition run_quote_engine ::
  "trimesh \<Rightarrow> file_obj \<Rightarrow> string option \<Rightarrow> real option \<Rightarrow> int option \<Rightarrow> string option
     \<Rightarrow> (error + quote_result) \<times> event list" where
  "run_quote_engine tm file_obj material_arg layer_height_arg infill_arg machine_arg =
     (let material = or_str material_arg (d_material DEFAULTS);
          layer_height_mm = or_float layer_height_arg (d_layer_height_mm DEFAULTS);
          infill_pct = or_int infill_arg (d_infill_pct DEFAULTS);
          machine = or_str machine_arg (d_machine DEFAULTS)
      in case subscript MACHINE_PROFILES ''BLENDED'' of
           Inl e \<Rightarrow> (Inl e, [])
         | Inr blended \<Rightarrow>
            (let mprof = dict_get MACHINE_PROFILES machine blended;
                 cm3_per_hr = mp_cm3_per_hr mprof;
                 hourly_rate =
                   (case mp_hourly_rate mprof of None \<Rightarrow> HOURLY_RATE_FALLBACK | Some h \<Rightarrow> h);
                 name = name_of file_obj;
                 ext = ext_of name
             in if ext \<notin> set [''.stl'', ''.obj'']
                then (Inl (ValueError ''Unsupported file type. Upload STL or OBJ.''), [])
                else
                 (let data = file_data file_obj
                  in case load tm data (remove_char CHR ''.'' ext) of
                       Inl e \<Rightarrow> (Inl e, [Read_file, Load_mesh])
                     | Inr mesh0 \<Rightarrow>
                        if is_empty mesh0
                        then (Inl (ValueError ''Mesh appears empty or invalid.''),
                              [Read_file, Load_mesh])
                        else
                         (let mesh = cleanup tm mesh0;
                              volume_cm3 = volume mesh / 1000.0;
                              surface_cm2 = area mesh / 100.0
                          in ((case extents mesh of
                                None \<Rightarrow> Inl (AttributeError ''tolist'')
                              | Some bbox_mm \<Rightarrow>
                                 (let triangles = int (length (faces mesh))
                                  in ebind (subscript DENSITY_G_CM3 ''PLA'') (\<lambda>dens_pla.
                                     ebind (subscript MATERIAL_RATES ''PLA'') (\<lambda>rate_pla.
                                     ebind (subscript MATERIAL_PRESETS ''PLA'') (\<lambda>preset_pla.
                                      (let dens = dict_get DENSITY_G_CM3 material dens_pla;
                                           rate = dict_get MATERIAL_RATES material rate_pla;
                                           mat_preset =
                                             dict_get MATERIAL_PRESETS material preset_pla;
                                           est_g = volume_cm3 * dens;
                                           est_time =
                                             estimate_time_hours volume_cm3 layer_height_mm
                                               infill_pct cm3_per_hr (speed_factor mat_preset);
                                           price_usd = price rate est_g est_time hourly_rate
                                       in ebind materials_snapshot (\<lambda>materials.
                                           Inr
                                            \<lparr>q_filename = name,
                                             q_material = material,
                                             q_layer_height_mm = py_round layer_height_mm 3,
                                             q_infill_pct = infill_pct,
                                             q_volume_cm3 = py_round volume_cm3 2,
                                             q_surface_cm2 = py_round surface_cm2 2,
                                             q_bbox_mm = map (\<lambda>x. py_round x 2) bbox_mm,
                                             q_triangles = triangles,
                                             q_est_material_g = py_round est_g 1,
                                             q_est_print_time_hr = py_round est_time 2,
                                             q_price_usd = price_usd,
                                             q_materials = materials,
                                             q_pricing_model =
                                               \<lparr>pm_base_fee = BASE_FEE,
                                                pm_hourly_rate = hourly_rate,
                                                pm_postprocess_fee = POSTPROCESS_FEE,
                                                pm_machine_cm3_per_hr = cm3_per_hr,
                                                pm_machine_label = mp_label mprof,
                                                pm_machine_key = machine\<rparr>,
                                             q_debug =
                                               \<lparr>dbg_layer_rel = layer_rel layer_height_mm,
                                                dbg_infill_mult = infill_mult infill_pct,
                                                dbg_cm3_per_hr_used = cm3_per_hr,
                                                dbg_material_speed_factor =
                                                  speed_factor mat_preset\<rparr>\<rparr>))))))),
                             [Read_file, Load_mesh])))))"

section \<open>quote/serializers.py\<close>

definition ALLOWED_EXTS :: "string list" where
  "ALLOWED_EXTS = [''stl'', ''obj'']"

definition MAX_FILE_MB :: nat where
  "MAX_FILE_MB = 50"

text \<open>
  An uploaded file as the validator sees it: its \<^verbatim>\<open>name\<close>, \<^verbatim>\<open>size\<close> and
  \<^verbatim>\<open>content_type\<close> attributes, each of which may be missing.
\<close>

record upload =
  up_name :: "string option"
  up_size :: "nat option"
  up_content_type :: "string option"

text \<open>
  \<^verbatim>\<open>QuoteUploadSerializer.validate_file\<close>. The content-type test of the source has an
  empty body, so it does not appear.
\<close>

definition validate_file :: "upload \<Rightarrow> error + upload" where
  "validate_file f =
     (let name = (case up_name f of None \<Rightarrow> [] | Some n \<Rightarrow> n);
          ext = (if CHR ''.'' \<in> set name then lower (last (rsplit1 CHR ''.'' name)) else [])
      in if ext \<notin> set ALLOWED_EXTS
         then Inl (ValidationError ''Unsupported file type. Upload STL or OBJ.'')
         else
          (case up_size f of
             None \<Rightarrow> Inr f
           | Some size_ok \<Rightarrow>
               if size_ok \<noteq> 0 \<and> MAX_FILE_MB * 1024 * 1024 < size_ok
               then Inl (ValidationError ''File too large (max 50MB).'')
               else Inr f))"

section \<open>quote/views.py: batch pricing\<close>

text \<open>
  \<^verbatim>\<open>_tiers_from_env\<close>. The environment maps variable names to strings; the
  conversions \<^verbatim>\<open>int(x)\<close> and \<^verbatim>\<open>float(x)\<close> of a string are Python built-ins and are
  parameters here (each returns the number or raises).
\<close>

record builtins =
  py_int :: "string \<Rightarrow> error + int"
  py_float :: "string \<Rightarrow> error + real"

definition environ_get :: "(string \<Rightarrow> string option) \<Rightarrow> string \<Rightarrow> string \<Rightarrow> string" where
  "environ_get environ k dflt = (case environ k of None \<Rightarrow> dflt | Some v \<Rightarrow> v)"

definition tiers_from_env ::
  "builtins \<Rightarrow> (string \<Rightarrow> string option) \<Rightarrow> error + (int list \<times> real list)" where
  "tiers_from_env bi environ =
     ebind (emap (py_int bi)
              (split_on CHR '','' (environ_get environ ''BATCH_TIERS'' ''1,10,25,50,100'')))
       (\<lambda>tiers.
     ebind (emap (py_float bi)
              (split_on CHR '','' (environ_get environ ''DISCOUNTS'' ''0,0.05,0.08,0.12,0.15'')))
       (\<lambda>discounts.
     Inr (tiers,
          if length discounts \<noteq> length tiers then replicate (length tiers) 0.0
          else discounts)))"

record tier_row =
  qty :: int
  discount :: real
  per_unit :: real
  total :: real

text \<open>
  The loop of \<^verbatim>\<open>BatchQuoteAPIView.post\<close> over \<^verbatim>\<open>zip(tiers, discounts)\<close>, one row
  appended per pair.
\<close>

fun tier_loop :: "real \<Rightarrow> (int \<times> real) list \<Rightarrow> tier_row list" where
  "tier_loop base_unit [] = []"
| "tier_loop base_unit ((q, disc) # rest) =
     (let pu = py_round (base_unit * (1 - disc)) 2;
          tot = py_round (pu * of_int q) 2
      in \<lparr>qty = q, discount = disc, per_unit = pu, total = tot\<rparr> # tier_loop base_unit rest)"

definition tier_rows :: "real \<Rightarrow> int list \<Rightarrow> real list \<Rightarrow> tier_row list" where
  "tier_rows base_unit tiers discounts = tier_loop base_unit (zip tiers discounts)"

text \<open>
  The tier table of a batch response, from the single quote the engine returned:
  \<^verbatim>\<open>base_unit = float(single["price_usd"])\<close>, the configured schedule, the rows.
\<close>

definition batch_tiers ::
  "builtins \<Rightarrow> (string \<Rightarrow> string option) \<Rightarrow> quote_result \<Rightarrow> error + tier_row list" where
  "batch_tiers bi environ single =
     (let base_unit = q_price_usd single
      in ebind (tiers_from_env bi environ)
           (\<lambda>(tiers, discounts). Inr (tier_rows base_unit tiers discounts)))"

section \<open>Sample inputs\<close>

text \<open>
  Two mesh libraries that load the same mesh from any bytes: in the first every cleanup
  step returns and changes nothing; in the second the first cleanup step raises (as it
  does when the installed library no longer has the method), so the pass ends there with
  the mesh as loaded. Three meshes: a 50 mm cube, a flat square of two triangles (an
  open surface, of volume zero), and a 100 mm cube whose faces are wound inside out, for
  which the library's signed volume is negative.
\<close>

definition sample_trimesh :: "mesh \<Rightarrow> trimesh" where
  "sample_trimesh m =
     \<lparr>load = (\<lambda>data file_type. Inr m),
      remove_duplicate_faces = Returned,
      remove_degenerate_faces = Returned,
      remove_unreferenced_vertices = Returned,
      process = (\<lambda>validate. Returned)\<rparr>"

definition raising_trimesh :: "mesh \<Rightarrow> trimesh" where
  "raising_trimesh m =
     \<lparr>load = (\<lambda>data file_type. Inr m),
      remove_duplicate_faces = Raised,
      remove_degenerate_faces = Returned,
      remove_unreferenced_vertices = Returned,
      process = (\<lambda>validate. Returned)\<rparr>"

definition cube_mesh :: mesh where
  "cube_mesh =
     \<lparr>is_empty = False, volume = 125000, area = 15000, extents = Some [50, 50, 50],
      faces = [(0, 1, 2), (0, 2, 3), (4, 6, 5), (4, 7, 6), (0, 4, 5), (0, 5, 1),
               (1, 5, 6), (1, 6, 2), (2, 6, 7), (2, 7, 3), (3, 7, 4), (3, 4, 0)]\<rparr>"

definition flat_mesh :: mesh where
  "flat_mesh =
     \<lparr>is_empty = False, volume = 0, area = 100, extents = Some [10, 10, 0],
      faces = [(0, 1, 2), (0, 2, 3)]\<rparr>"

definition inverted_mesh :: mesh where
  "inverted_mesh =
     \<lparr>is_empty = False, volume = - 1000000, area = 60000, extents = Some [100, 100, 100],
      faces = [(0, 2, 1), (0, 3, 2), (4, 5, 6), (4, 6, 7), (0, 5, 4), (0, 1, 5),
               (1, 6, 5), (1, 2, 6), (2, 7, 6), (2, 3, 7), (3, 4, 7), (3, 0, 4)]\<rparr>"

definition sample_file :: "string \<Rightarrow> file_obj" where
  "sample_file n = \<lparr>file_name = Some n, file_data = ''solid part''\<rparr>"

text \<open>
  Conversions for the sample runs: \<^verbatim>\<open>int\<close> and \<^verbatim>\<open>float\<close> on the strings of the default
  schedule, any other string being refused as Python refuses a malformed number.
\<close>

definition sample_builtins :: builtins where
  "sample_builtins =
     \<lparr>py_int = (\<lambda>s.
        case map_of [(''1'', 1), (''10'', 10), (''25'', 25), (''50'', 50), (''100'', 100)] s of
          None \<Rightarrow> Inl (ValueError ''invalid literal for int() with base 10'')
        | Some n \<Rightarrow> Inr n),
      py_float = (\<lambda>s.
        case map_of [(''0'', 0), (''0.05'', 0.05), (''0.08'', 0.08), (''0.12'', 0.12),
                     (''0.15'', 0.15)] s of
          None \<Rightarrow> Inl (ValueError ''could not convert string to float'')
        | Some x \<Rightarrow> Inr x)\<rparr>"

section \<open>Properties of the rounding\<close>

lemma round_half_even_of_int: "round_half_even (of_int n) = n"
  by (simp add: round_half_even_def)

lemma round_half_even_mono:
  assumes "x \<le> y"
  shows "round_half_even x \<le> round_half_even y"
proof (cases "\<lfloor>x\<rfloor> = \<lfloor>y\<rfloor>")
  case True
  then show ?thesis using assms
    unfolding round_half_even_def Let_def by auto
next
  case False
  with assms have "\<lfloor>x\<rfloor> < \<lfloor>y\<rfloor>"
    by (simp add: floor_mono order.strict_iff_order)
  moreover have "round_half_even x \<le> \<lfloor>x\<rfloor> + 1"
    unfolding round_half_even_def Let_def by auto
  moreover have "\<lfloor>y\<rfloor> \<le> round_half_even y"
    unfolding round_half_even_def Let_def by auto
  ultimately show ?thesis by linarith
qed

lemma py_round_mono: "x \<le> y \<Longrightarrow> py_round x n \<le> py_round y n"
  unfolding py_round_def
  by (intro divide_right_mono) (auto intro!: round_half_even_mono mult_right_mono)

lemma py_round_ge:
  assumes "of_int k / 10 ^ n \<le> x"
  shows "of_int k / 10 ^ n \<le> py_round x n"
proof -
  have "of_int k \<le> x * 10 ^ n" using assms by (simp add: pos_divide_le_eq)
  then have "k \<le> round_half_even (x * 10 ^ n)"
    using round_half_even_mono [of "of_int k" "x * 10 ^ n"] by (simp add: round_half_even_of_int)
  then show ?thesis unfolding py_round_def by (simp add: divide_right_mono)
qed

section \<open>Properties of the time model\<close>

lemma clamp_mono: "s \<le> t \<Longrightarrow> max lo (min s hi) \<le> max lo (min t (hi::real))"
  by (simp add: max_def min_def)

lemma clamp_range:
  "lo \<le> hi \<Longrightarrow> lo \<le> max lo (min t hi) \<and> max lo (min t hi) \<le> (hi::real)"
  by (simp add: max_def min_def)

lemma layer_rel_antimono: "a \<le> b \<Longrightarrow> layer_rel b \<le> layer_rel a"
proof -
  assume ab: "a \<le> b"
  have pos: "0 < max a (0.10::real)" by simp
  have "max a 0.10 \<le> max b (0.10::real)" using ab by auto
  then have "0.20 / max b 0.10 \<le> 0.20 / max a (0.10::real)"
    using pos by (intro divide_left_mono) auto
  then show ?thesis unfolding layer_rel_def by (rule clamp_mono)
qed

lemma layer_rel_range: "0.6 \<le> layer_rel x \<and> layer_rel x \<le> 1.5"
  unfolding layer_rel_def by (rule clamp_range) simp

lemma estimate_time_hours_floor: "0.08 \<le> estimate_time_hours v l i s k"
  by (simp add: estimate_time_hours_def Let_def)

text \<open>
  Claim C8. The layer factor \<open>layer_rel = clamp(0.20 / max(layer_height_mm, 0.10), 0.6, 1.5)\<close>
  never increases when the layer height increases, always lies between 0.6 and 1.5,
  is the upper bound 1.5 at layer height 0.05 and the lower bound 0.6 at layer height 0.6.
\<close>

theorem C8_layer_rel:
  "(\<forall>a b. a \<le> b \<longrightarrow> layer_rel b \<le> layer_rel a) \<and>
   (\<forall>x. 0.6 \<le> layer_rel x \<and> layer_rel x \<le> 1.5) \<and>
   layer_rel 0.05 = 1.5 \<and> layer_rel 0.6 = 0.6"
proof (intro conjI allI impI)
  show "layer_rel 0.05 = 1.5" by (simp add: layer_rel_def)
  show "layer_rel 0.6 = 0.6" by (simp add: layer_rel_def)
  show "layer_rel b \<le> layer_rel a" if "a \<le> b" for a b
    using that by (rule layer_rel_antimono)
  show "0.6 \<le> layer_rel x" for x
    using layer_rel_range [of x] by (rule conjunct1)
  show "layer_rel x \<le> 1.5" for x
    using layer_rel_range [of x] by (rule conjunct2)
qed

theorem C8_layer_rel_witness:
  "(0.2::real) \<le> 0.4 \<and> layer_rel 0.4 \<le> layer_rel 0.2 \<and> layer_rel 0.4 = 0.6 \<and> layer_rel 0.2 = 1"
proof -
  have h: "(0.2::real) \<le> 0.4" by simp
  have "layer_rel 0.4 \<le> layer_rel 0.2"
    using C8_layer_rel h by blast
  moreover have "layer_rel 0.4 = 0.6" "layer_rel 0.2 = 1" by (simp_all add: layer_rel_def)
  ultimately show ?thesis using h by simp
qed

section \<open>Properties of the tables\<close>

lemma dict_get_unknown: "k \<notin> set (keys d) \<Longrightarrow> dict_get d k x = x"
proof -
  assume "k \<notin> set (keys d)"
  then have "map_of d k = None" by (simp add: keys_def map_of_eq_None_iff)
  then show ?thesis by (simp add: dict_get_def)
qed

lemma dict_get_cases: "dict_get d k x = x \<or> (k, dict_get d k x) \<in> set d"
  by (auto simp: dict_get_def dest: map_of_SomeD split: option.splits)

lemma subscript_blended:
  "subscript MACHINE_PROFILES ''BLENDED'' =
     Inr \<lparr>mp_label = ''Blended (FF 5M Pro + Kobra S1)'', mp_cm3_per_hr = 46.0,
          mp_hourly_rate = Some 8.0\<rparr>"
  by (simp add: subscript_def MACHINE_PROFILES_def)

lemma subscript_pla:
  "subscript DENSITY_G_CM3 ''PLA'' = Inr 1.24"
  "subscript MATERIAL_RATES ''PLA'' = Inr 0.025"
  "subscript MATERIAL_PRESETS ''PLA'' = Inr \<lparr>rec_layer_mm = 0.20, speed_factor = 1.00\<rparr>"
  by (simp_all add: subscript_def DENSITY_G_CM3_def MATERIAL_RATES_def MATERIAL_PRESETS_def)

lemma dict_get_default_keys:
  "dict_get MACHINE_PROFILES ''BLENDED'' b =
     \<lparr>mp_label = ''Blended (FF 5M Pro + Kobra S1)'', mp_cm3_per_hr = 46.0,
      mp_hourly_rate = Some 8.0\<rparr>"
  "dict_get DENSITY_G_CM3 ''PLA'' d = 1.24"
  "dict_get MATERIAL_RATES ''PLA'' r = 0.025"
  "dict_get MATERIAL_PRESETS ''PLA'' p = \<lparr>rec_layer_mm = 0.20, speed_factor = 1.00\<rparr>"
  by (simp_all add: dict_get_def MACHINE_PROFILES_def DENSITY_G_CM3_def MATERIAL_RATES_def
      MATERIAL_PRESETS_def)

lemma materials_snapshot_eq:
  "materials_snapshot = Inr
     [(''PLA'', \<lparr>mi_label = ''PLA'', mi_rate_per_g = 0.025, mi_density_g_cm3 = 1.24,
                 mi_rec_layer_mm = 0.20, mi_speed_factor = 1.00\<rparr>),
      (''PLA+'', \<lparr>mi_label = ''PLA+'', mi_rate_per_g = 0.028, mi_density_g_cm3 = 1.24,
                 mi_rec_layer_mm = 0.20, mi_speed_factor = 0.95\<rparr>),
      (''PETG'', \<lparr>mi_label = ''PETG'', mi_rate_per_g = 0.030, mi_density_g_cm3 = 1.27,
                 mi_rec_layer_mm = 0.24, mi_speed_factor = 0.85\<rparr>),
      (''Nylon'', \<lparr>mi_label = ''Nylon'', mi_rate_per_g = 0.060, mi_density_g_cm3 = 1.15,
                 mi_rec_layer_mm = 0.24, mi_speed_factor = 0.80\<rparr>),
      (''CFNylon'', \<lparr>mi_label = ''CFNylon'', mi_rate_per_g = 0.100, mi_density_g_cm3 = 1.20,
                 mi_rec_layer_mm = 0.28, mi_speed_factor = 0.70\<rparr>)]"
  by (simp add: materials_snapshot_def keys_def MATERIAL_RATES_def DENSITY_G_CM3_def
      MATERIAL_PRESETS_def subscript_def ebind_def)

lemma rate_nonneg: "0 \<le> d \<Longrightarrow> 0 \<le> dict_get MATERIAL_RATES k d"
  using dict_get_cases [of MATERIAL_RATES k d]
  by (auto simp: MATERIAL_RATES_def)

lemma density_nonneg: "0 \<le> d \<Longrightarrow> 0 \<le> dict_get DENSITY_G_CM3 k d"
  using dict_get_cases [of DENSITY_G_CM3 k d]
  by (auto simp: DENSITY_G_CM3_def)

lemma hourly_rate_resolved:
  "mp_hourly_rate b = Some 8 \<Longrightarrow> mp_hourly_rate (dict_get MACHINE_PROFILES k b) = Some 8"
  using dict_get_cases [of MACHINE_PROFILES k b]
  by (auto simp: MACHINE_PROFILES_def)

section \<open>The outcomes of the engine\<close>

lemmas engine_simps = run_quote_engine_def Let_def ebind_def subscript_blended subscript_pla
  materials_snapshot_eq DEFAULTS_def

lemma run_unsupported:
  assumes "ext_of (name_of f) \<noteq> ''.stl''" and "ext_of (name_of f) \<noteq> ''.obj''"
  shows "run_quote_engine tm f ma la ia mca =
           (Inl (ValueError ''Unsupported file type. Upload STL or OBJ.''), [])"
  using assms by (simp add: engine_simps)

lemma run_load_raises:
  assumes "ext_of (name_of f) = ''.stl'' \<or> ext_of (name_of f) = ''.obj''"
    and "load tm (file_data f) (remove_char CHR ''.'' (ext_of (name_of f))) = Inl e"
  shows "run_quote_engine tm f ma la ia mca = (Inl e, [Read_file, Load_mesh])"
  using assms by (auto simp: engine_simps)

lemma run_empty:
  assumes "ext_of (name_of f) = ''.stl'' \<or> ext_of (name_of f) = ''.obj''"
    and "load tm (file_data f) (remove_char CHR ''.'' (ext_of (name_of f))) = Inr mesh0"
    and "is_empty mesh0"
  shows "run_quote_engine tm f ma la ia mca =
           (Inl (ValueError ''Mesh appears empty or invalid.''), [Read_file, Load_mesh])"
  using assms by (auto simp: engine_simps)

lemma run_no_extents:
  assumes "ext_of (name_of f) = ''.stl'' \<or> ext_of (name_of f) = ''.obj''"
    and "load tm (file_data f) (remove_char CHR ''.'' (ext_of (name_of f))) = Inr mesh0"
    and "\<not> is_empty mesh0" and "extents (cleanup tm mesh0) = None"
  shows "run_quote_engine tm f ma la ia mca =
           (Inl (AttributeError ''tolist''), [Read_file, Load_mesh])"
  using assms by (auto simp: engine_simps)

lemma run_quoted:
  assumes "ext_of (name_of f) = ''.stl'' \<or> ext_of (name_of f) = ''.obj''"
    and "load tm (file_data f) (remove_char CHR ''.'' (ext_of (name_of f))) = Inr mesh0"
    and "\<not> is_empty mesh0" and "extents (cleanup tm mesh0) = Some bbox_mm"
  shows "\<exists>r. run_quote_engine tm f ma la ia mca = (Inr r, [Read_file, Load_mesh])"
  using assms by (auto simp: engine_simps)

lemma run_quoted_fields:
  fixes tm f ma la ia mca
  defines "material \<equiv> or_str ma ''PLA''"
    and "layer_height_mm \<equiv> or_float la 0.20"
    and "infill_pct \<equiv> or_int ia 20"
    and "machine \<equiv> or_str mca ''BLENDED''"
  defines "mprof \<equiv> dict_get MACHINE_PROFILES machine
       \<lparr>mp_label = ''Blended (FF 5M Pro + Kobra S1)'', mp_cm3_per_hr = 46.0,
        mp_hourly_rate = Some 8.0\<rparr>"
    and "dens \<equiv> dict_get DENSITY_G_CM3 material 1.24"
    and "rate \<equiv> dict_get MATERIAL_RATES material 0.025"
    and "mat_preset \<equiv>
       dict_get MATERIAL_PRESETS material \<lparr>rec_layer_mm = 0.20, speed_factor = 1.00\<rparr>"
  assumes "ext_of (name_of f) = ''.stl'' \<or> ext_of (name_of f) = ''.obj''"
    and "load tm (file_data f) (remove_char CHR ''.'' (ext_of (name_of f))) = Inr mesh0"
    and "\<not> is_empty mesh0" and "extents (cleanup tm mesh0) = Some bbox_mm"
    and "fst (run_quote_engine tm f ma la ia mca) = Inr r"
  shows "q_filename r = name_of f"
    and "q_material r = material"
    and "q_infill_pct r = infill_pct"
    and "q_est_material_g r = py_round (volume (cleanup tm mesh0) / 1000 * dens) 1"
    and "q_est_print_time_hr r =
           py_round (estimate_time_hours (volume (cleanup tm mesh0) / 1000)
             layer_height_mm infill_pct (mp_cm3_per_hr mprof) (speed_factor mat_preset)) 2"
    and "q_price_usd r =
           price rate (volume (cleanup tm mesh0) / 1000 * dens)
             (estimate_time_hours (volume (cleanup tm mesh0) / 1000)
                layer_height_mm infill_pct (mp_cm3_per_hr mprof) (speed_factor mat_preset)) 8"
    and "q_pricing_model r =
           \<lparr>pm_base_fee = 5, pm_hourly_rate = 8, pm_postprocess_fee = 0,
            pm_machine_cm3_per_hr = mp_cm3_per_hr mprof, pm_machine_label = mp_label mprof,
            pm_machine_key = machine\<rparr>"
    and "q_debug r =
           \<lparr>dbg_layer_rel = layer_rel layer_height_mm,
            dbg_infill_mult = infill_mult infill_pct,
            dbg_cm3_per_hr_used = mp_cm3_per_hr mprof,
            dbg_material_speed_factor = speed_factor mat_preset\<rparr>"
  using assms(9-)
  unfolding material_def layer_height_mm_def infill_pct_def machine_def mprof_def dens_def
    rate_def mat_preset_def
  by (auto simp: engine_simps hourly_rate_resolved BASE_FEE_def POSTPROCESS_FEE_def)

lemma run_InrE:
  assumes "fst (run_quote_engine tm f ma la ia mca) = Inr r"
  obtains mesh0 bbox_mm where
    "ext_of (name_of f) = ''.stl'' \<or> ext_of (name_of f) = ''.obj''"
    "load tm (file_data f) (remove_char CHR ''.'' (ext_of (name_of f))) = Inr mesh0"
    "\<not> is_empty mesh0" "extents (cleanup tm mesh0) = Some bbox_mm"
proof (cases "ext_of (name_of f) = ''.stl'' \<or> ext_of (name_of f) = ''.obj''")
  case False
  then show ?thesis using assms run_unsupported [of f tm ma la ia mca] by simp
next
  case ext: True
  show ?thesis
  proof (cases "load tm (file_data f) (remove_char CHR ''.'' (ext_of (name_of f)))")
    case (Inl e)
    then show ?thesis using assms run_load_raises [OF ext, of tm e ma la ia mca] by simp
  next
    case (Inr mesh0)
    show ?thesis
    proof (cases "is_empty mesh0")
      case True
      then show ?thesis using assms run_empty [OF ext Inr, of ma la ia mca] by simp
    next
      case ne: False
      show ?thesis
      proof (cases "extents (cleanup tm mesh0)")
        case None
        then show ?thesis using assms run_no_extents [OF ext Inr ne, of ma la ia mca] by simp
      next
        case (Some b)
        then show ?thesis using that ext Inr ne by blast
      qed
    qed
  qed
qed

section \<open>Sample runs\<close>

lemma cleanup_sample:
  "cleanup (sample_trimesh m) m' = m'" "cleanup (raising_trimesh m) m' = m'"
  by (simp_all add: cleanup_def sample_trimesh_def raising_trimesh_def)

lemma load_sample:
  "load (sample_trimesh m) d t = Inr m" "load (raising_trimesh m) d t = Inr m"
  by (simp_all add: sample_trimesh_def raising_trimesh_def)

lemma ext_of_sample:
  "ext_of (name_of (sample_file ''cube.stl'')) = ''.stl''"
  "ext_of (name_of (sample_file ''part.OBJ'')) = ''.obj''"
  "ext_of (name_of (sample_file ''photo.png'')) = ''.png''"
  by (simp_all add: ext_of_def name_of_def sample_file_def splitext_def rfind_def lower_def
      lower_char_def)

lemma sample_run_quoted:
  assumes "\<not> is_empty m" and "extents m = Some b"
  obtains r where
    "run_quote_engine (sample_trimesh m) (sample_file ''cube.stl'') ma la ia mca =
       (Inr r, [Read_file, Load_mesh])"
  using run_quoted [of "sample_file ''cube.stl''" "sample_trimesh m" m b ma la ia mca] assms
  by (auto simp: ext_of_sample load_sample cleanup_sample)



text \<open>
  Claim C2, as stated, fails: the engine never looks at the sign of the volume the
  library reports. For the inside-out cube, left as loaded by a cleanup pass that
  raised, it returns a mass of -1240 g and a price of -25.36, below the base fee and
  below zero.
\<close>

theorem C2_counterexample:
  "map_sum id (\<lambda>r. (q_price_usd r, q_est_material_g r))
     (fst (run_quote_engine (raising_trimesh inverted_mesh) (sample_file ''cube.stl'')
             None None None None)) = Inr (- 25.36, - 1240)"
proof -
  let ?tm = "raising_trimesh inverted_mesh" and ?f = "sample_file ''cube.stl''"
  have ne: "\<not> is_empty inverted_mesh" and
    bb: "extents (cleanup ?tm inverted_mesh) = Some [100, 100, 100]"
    by (simp_all add: inverted_mesh_def cleanup_sample)
  have ext: "ext_of (name_of ?f) = ''.stl'' \<or> ext_of (name_of ?f) = ''.obj''"
    by (simp add: ext_of_sample)
  have ld: "load ?tm (file_data ?f) (remove_char CHR ''.'' (ext_of (name_of ?f))) = Inr inverted_mesh"
    by (rule load_sample(2))
  obtain r where r: "fst (run_quote_engine ?tm ?f None None None None) = Inr r"
    using run_quoted [OF ext ld ne bb, of None None None None] by auto
  have "q_price_usd r = - 25.36"
    using run_quoted_fields(6) [OF ext ld ne bb r]
    by (simp add: cleanup_sample or_str_def or_float_def or_int_def dict_get_default_keys
        inverted_mesh_def estimate_time_hours_def layer_rel_def infill_mult_def Let_def
        price_def BASE_FEE_def POSTPROCESS_FEE_def py_round_def round_half_even_def)
  moreover have "q_est_material_g r = - 1240"
    using run_quoted_fields(4) [OF ext ld ne bb r]
    by (simp add: cleanup_sample or_str_def dict_get_default_keys inverted_mesh_def
        py_round_def round_half_even_def)
  ultimately show ?thesis using r by simp
qed

text \<open>
  Claim C2, amended. For every quote the engine returns, \<^verbatim>\<open>est_print_time_hr\<close> is at
  least 0.08; and when the volume of the cleaned mesh is not negative, the estimated
  mass is not negative and the price is at least the base fee, hence not negative.
\<close>

theorem C2_bounds:
  assumes "fst (run_quote_engine tm f ma la ia mca) = Inr r"
    and "load tm (file_data f) (remove_char CHR ''.'' (ext_of (name_of f))) = Inr mesh0"
  shows "0.08 \<le> q_est_print_time_hr r \<and>
         (0 \<le> volume (cleanup tm mesh0) \<longrightarrow>
            0 \<le> q_est_material_g r \<and> BASE_FEE \<le> q_price_usd r \<and> 0 \<le> q_price_usd r)"
proof -
  from assms(1) obtain mesh1 bbox_mm where
    ext: "ext_of (name_of f) = ''.stl'' \<or> ext_of (name_of f) = ''.obj''" and
    ld1: "load tm (file_data f) (remove_char CHR ''.'' (ext_of (name_of f))) = Inr mesh1" and
    ne1: "\<not> is_empty mesh1" and bb1: "extents (cleanup tm mesh1) = Some bbox_mm"
    by (rule run_InrE)
  from ld1 assms(2) have eq: "mesh1 = mesh0" by simp
  note ld = ld1 [unfolded eq] and ne = ne1 [unfolded eq] and bb = bb1 [unfolded eq]
  note flds = run_quoted_fields [OF ext ld ne bb assms(1)]
  let ?v = "volume (cleanup tm mesh0) / 1000"
  let ?dens = "dict_get DENSITY_G_CM3 (or_str ma ''PLA'') 1.24"
  let ?rate = "dict_get MATERIAL_RATES (or_str ma ''PLA'') 0.025"
  let ?t = "estimate_time_hours ?v (or_float la 0.20) (or_int ia 20)
      (mp_cm3_per_hr (dict_get MACHINE_PROFILES (or_str mca ''BLENDED'')
         \<lparr>mp_label = ''Blended (FF 5M Pro + Kobra S1)'', mp_cm3_per_hr = 46.0,
          mp_hourly_rate = Some 8.0\<rparr>))
      (speed_factor (dict_get MATERIAL_PRESETS (or_str ma ''PLA'')
         \<lparr>rec_layer_mm = 0.20, speed_factor = 1.00\<rparr>))"
  have t: "0.08 \<le> ?t" by (rule estimate_time_hours_floor)
  have time: "0.08 \<le> q_est_print_time_hr r"
  proof -
    have "of_int 8 / 10 ^ 2 \<le> ?t" using t by simp
    then have "of_int 8 / 10 ^ 2 \<le> py_round ?t 2" by (rule py_round_ge)
    then show ?thesis unfolding flds(5) by simp
  qed
  have rest: "0 \<le> q_est_material_g r \<and> BASE_FEE \<le> q_price_usd r \<and> 0 \<le> q_price_usd r"
    if v: "0 \<le> volume (cleanup tm mesh0)"
  proof -
    have d: "0 \<le> ?dens" by (rule density_nonneg) simp
    have rt: "0 \<le> ?rate" by (rule rate_nonneg) simp
    have g: "0 \<le> ?v * ?dens" using v d by simp
    have "of_int 0 / 10 ^ 1 \<le> ?v * ?dens" using g by simp
    then have "of_int 0 / 10 ^ 1 \<le> py_round (?v * ?dens) 1" by (rule py_round_ge)
    then have mass: "0 \<le> q_est_material_g r" unfolding flds(4) by simp
    have "0 \<le> ?v * ?dens * ?rate" using g rt by (rule mult_nonneg_nonneg)
    then have "of_int 500 / 10 ^ 2 \<le> BASE_FEE + ?v * ?dens * ?rate + ?t * 8 + POSTPROCESS_FEE"
      using t by (simp add: BASE_FEE_def POSTPROCESS_FEE_def)
    then have "of_int 500 / 10 ^ 2
         \<le> py_round (BASE_FEE + ?v * ?dens * ?rate + ?t * 8 + POSTPROCESS_FEE) 2"
      by (rule py_round_ge)
    then have "5 \<le> q_price_usd r" unfolding flds(6) price_def by simp
    then show ?thesis using mass by (simp add: BASE_FEE_def)
  qed
  from time rest show ?thesis by blast
qed

theorem C2_bounds_witness:
  "map_sum id (\<lambda>r. 0.08 \<le> q_est_print_time_hr r \<and> 0 \<le> q_est_material_g r \<and>
        BASE_FEE \<le> q_price_usd r \<and> 0 \<le> q_price_usd r)
     (fst (run_quote_engine (sample_trimesh cube_mesh) (sample_file ''cube.stl'')
             None None None None)) = Inr True"
proof -
  obtain r where r: "run_quote_engine (sample_trimesh cube_mesh) (sample_file ''cube.stl'')
             None None None None = (Inr r, [Read_file, Load_mesh])"
    by (rule sample_run_quoted [of cube_mesh]) (simp_all add: cube_mesh_def)
  then have acc: "fst (run_quote_engine (sample_trimesh cube_mesh) (sample_file ''cube.stl'')
             None None None None) = Inr r" by simp
  have vol: "0 \<le> volume (cleanup (sample_trimesh cube_mesh) cube_mesh)"
    by (simp add: cleanup_sample cube_mesh_def)
  from C2_bounds [OF acc load_sample(1)] vol
  have "0.08 \<le> q_est_print_time_hr r \<and> 0 \<le> q_est_material_g r \<and>
        BASE_FEE \<le> q_price_usd r \<and> 0 \<le> q_price_usd r" by blast
  with acc show ?thesis by simp
qed

lemma infill_mult_ends: "infill_mult 0 = 1.0 \<and> infill_mult 100 = 1.3"
  by (simp add: infill_mult_def)

text \<open>
  Claim C3. The formula gives 1.0 at infill 0 and 1.3 at infill 100 (\<open>infill_mult_ends\<close>),
  but the engine does not reach it with 0: \<^verbatim>\<open>infill_pct or DEFAULTS["infill_pct"]\<close>
  replaces a requested infill of 0 by 20. Called with \<^verbatim>\<open>infill_pct = 0\<close>, the engine
  reports infill 20 and the multiplier 1.06.
\<close>

theorem C3_engine_infill_zero:
  "map_sum id (\<lambda>r. (q_infill_pct r, dbg_infill_mult (q_debug r)))
     (fst (run_quote_engine (sample_trimesh cube_mesh) (sample_file ''cube.stl'')
             (Some ''PLA'') (Some 0.2) (Some 0) None)) = Inr (20, 1.06)"
proof -
  let ?tm = "sample_trimesh cube_mesh" and ?f = "sample_file ''cube.stl''"
  have ne: "\<not> is_empty cube_mesh" and
    bb: "extents (cleanup ?tm cube_mesh) = Some [50, 50, 50]"
    by (simp_all add: cube_mesh_def cleanup_sample)
  have ext: "ext_of (name_of ?f) = ''.stl'' \<or> ext_of (name_of ?f) = ''.obj''"
    by (simp add: ext_of_sample)
  have ld: "load ?tm (file_data ?f) (remove_char CHR ''.'' (ext_of (name_of ?f))) = Inr cube_mesh"
    by (rule load_sample(1))
  obtain r where r: "fst (run_quote_engine ?tm ?f (Some ''PLA'') (Some 0.2) (Some 0) None) = Inr r"
    using run_quoted [OF ext ld ne bb, of "Some ''PLA''" "Some 0.2" "Some 0" None] by auto
  have "q_infill_pct r = 20"
    using run_quoted_fields(3) [OF ext ld ne bb r] by (simp add: or_int_def)
  moreover have "dbg_infill_mult (q_debug r) = 1.06"
    using run_quoted_fields(8) [OF ext ld ne bb r] by (simp add: or_int_def infill_mult_def)
  ultimately show ?thesis using r by simp
qed

text \<open>
  Claim C4, as stated, fails: nothing is checked after the cleanup pass. The flat square
  is not empty, its cleaned mesh has volume zero, and the engine quotes it at 5.64.
\<close>

theorem C4_counterexample:
  "volume (cleanup (sample_trimesh flat_mesh) flat_mesh) = 0 \<and>
   map_sum id q_price_usd
     (fst (run_quote_engine (sample_trimesh flat_mesh) (sample_file ''cube.stl'')
             None None None None)) = Inr 5.64"
proof -
  let ?tm = "sample_trimesh flat_mesh" and ?f = "sample_file ''cube.stl''"
  have ne: "\<not> is_empty flat_mesh" and
    bb: "extents (cleanup ?tm flat_mesh) = Some [10, 10, 0]"
    by (simp_all add: flat_mesh_def cleanup_sample)
  have ext: "ext_of (name_of ?f) = ''.stl'' \<or> ext_of (name_of ?f) = ''.obj''"
    by (simp add: ext_of_sample)
  have ld: "load ?tm (file_data ?f) (remove_char CHR ''.'' (ext_of (name_of ?f))) = Inr flat_mesh"
    by (rule load_sample(1))
  obtain r where r: "fst (run_quote_engine ?tm ?f None None None None) = Inr r"
    using run_quoted [OF ext ld ne bb, of None None None None] by auto
  have "q_price_usd r = 5.64"
    using run_quoted_fields(6) [OF ext ld ne bb r]
    by (simp add: cleanup_sample or_str_def or_float_def or_int_def dict_get_default_keys
        flat_mesh_def estimate_time_hours_def layer_rel_def infill_mult_def Let_def
        price_def BASE_FEE_def POSTPROCESS_FEE_def py_round_def round_half_even_def)
  moreover have "volume (cleanup ?tm flat_mesh) = 0"
    by (simp add: cleanup_sample flat_mesh_def)
  ultimately show ?thesis using r by simp
qed

text \<open>
  Claim C4, amended. For every file with an accepted extension whose mesh loads, the
  engine raises \<^verbatim>\<open>ValueError("Mesh appears empty or invalid.")\<close> exactly when the mesh
  is empty as loaded, before the cleanup pass; a mesh that is not empty and whose
  cleaned form has extents is quoted, whatever its volume.
\<close>

theorem C4_invalid_geometry:
  assumes "ext_of (name_of f) = ''.stl'' \<or> ext_of (name_of f) = ''.obj''"
    and "load tm (file_data f) (remove_char CHR ''.'' (ext_of (name_of f))) = Inr mesh0"
  shows "(fst (run_quote_engine tm f ma la ia mca) =
            Inl (ValueError ''Mesh appears empty or invalid.'') \<longleftrightarrow> is_empty mesh0) \<and>
         (\<not> is_empty mesh0 \<and> extents (cleanup tm mesh0) \<noteq> None \<longrightarrow>
            (\<exists>r. fst (run_quote_engine tm f ma la ia mca) = Inr r))"
proof (cases "is_empty mesh0")
  case True
  then show ?thesis using run_empty [OF assms, of ma la ia mca] by simp
next
  case ne: False
  show ?thesis
  proof (cases "extents (cleanup tm mesh0)")
    case None
    then show ?thesis using ne run_no_extents [OF assms ne, of ma la ia mca] by simp
  next
    case (Some b)
    then show ?thesis using ne run_quoted [OF assms ne Some, of ma la ia mca] by auto
  qed
qed

theorem C4_invalid_geometry_witness:
  "fst (run_quote_engine (sample_trimesh (flat_mesh\<lparr>is_empty := True\<rparr>))
          (sample_file ''cube.stl'') None None None None) =
     Inl (ValueError ''Mesh appears empty or invalid.'') \<and>
   (\<exists>r. fst (run_quote_engine (sample_trimesh flat_mesh) (sample_file ''cube.stl'')
          None None None None) = Inr r)"
proof -
  let ?f = "sample_file ''cube.stl''"
  have ext: "ext_of (name_of ?f) = ''.stl'' \<or> ext_of (name_of ?f) = ''.obj''"
    by (simp add: ext_of_sample)
  have "is_empty (flat_mesh\<lparr>is_empty := True\<rparr>)" by simp
  then have a: "fst (run_quote_engine (sample_trimesh (flat_mesh\<lparr>is_empty := True\<rparr>))
          ?f None None None None) = Inl (ValueError ''Mesh appears empty or invalid.'')"
    using C4_invalid_geometry [OF ext load_sample(1), of "flat_mesh\<lparr>is_empty := True\<rparr>" None None None None]
    by blast
  have "\<not> is_empty flat_mesh \<and> extents (cleanup (sample_trimesh flat_mesh) flat_mesh) \<noteq> None"
    by (simp add: cleanup_sample flat_mesh_def)
  then have "\<exists>r. fst (run_quote_engine (sample_trimesh flat_mesh) ?f None None None None) = Inr r"
    using C4_invalid_geometry [OF ext load_sample(1), of flat_mesh None None None None]
    by blast
  with a show ?thesis by blast
qed


lemma unknown_machine_run:
  assumes "mk \<notin> set (keys MACHINE_PROFILES)"
  shows "run_quote_engine tm f ma la ia (Some mk) =
     apfst (map_sum id (\<lambda>r. r\<lparr>q_pricing_model :=
                (q_pricing_model r)\<lparr>pm_machine_key := or_str (Some mk) ''BLENDED''\<rparr>\<rparr>))
       (run_quote_engine tm f ma la ia (Some ''BLENDED''))"
proof -
  have k: "dict_get MACHINE_PROFILES (or_str (Some mk) ''BLENDED'') b =
           (if mk = [] then dict_get MACHINE_PROFILES ''BLENDED'' b else b)" for b
    using assms by (simp add: or_str_def dict_get_unknown)
  have o: "or_str (Some ''BLENDED'') ''BLENDED'' = ''BLENDED''" "or_str (Some []) d = d" for d
    by (simp_all add: or_str_def)
  show ?thesis
    by (simp add: engine_simps k o dict_get_default_keys split: sum.splits option.splits)
qed

lemma unknown_material_run:
  assumes "mat \<notin> set (keys MATERIAL_RATES)" and "mat \<notin> set (keys DENSITY_G_CM3)"
    and "mat \<notin> set (keys MATERIAL_PRESETS)"
  shows "run_quote_engine tm f (Some mat) la ia mca =
     apfst (map_sum id (\<lambda>r. r\<lparr>q_material := or_str (Some mat) ''PLA''\<rparr>))
       (run_quote_engine tm f (Some ''PLA'') la ia mca)"
proof -
  have k: "dict_get MATERIAL_RATES (or_str (Some mat) ''PLA'') b1 =
             (if mat = [] then dict_get MATERIAL_RATES ''PLA'' b1 else b1)"
     "dict_get DENSITY_G_CM3 (or_str (Some mat) ''PLA'') b2 =
             (if mat = [] then dict_get DENSITY_G_CM3 ''PLA'' b2 else b2)"
     "dict_get MATERIAL_PRESETS (or_str (Some mat) ''PLA'') b3 =
             (if mat = [] then dict_get MATERIAL_PRESETS ''PLA'' b3 else b3)"
     for b1 b2 b3
    using assms by (simp_all add: or_str_def dict_get_unknown)
  have o: "or_str (Some ''PLA'') ''PLA'' = ''PLA''" "or_str (Some []) d = d" for d
    by (simp_all add: or_str_def)
  show ?thesis
    by (simp add: engine_simps k o dict_get_default_keys split: sum.splits option.splits)
qed

lemma material_tables_same_keys:
  "keys DENSITY_G_CM3 = keys MATERIAL_RATES" "keys MATERIAL_PRESETS = keys MATERIAL_RATES"
  by (simp_all add: keys_def DENSITY_G_CM3_def MATERIAL_RATES_def MATERIAL_PRESETS_def)

text \<open>
  Claim C5. A machine key that is not in the machine table gives the outcome of the
  BLENDED key, the echoed key apart: throughput 46, hourly rate 8. A material key that
  is not in the material tables gives the outcome of PLA, the echoed name apart: speed
  factor 1.00, density 1.24, rate 0.025. So an unknown key fails only where the default
  key fails.
\<close>

theorem C5_unknown_keys:
  "(mk \<notin> set (keys MACHINE_PROFILES) \<longrightarrow>
      run_quote_engine tm f ma la ia (Some mk) =
        apfst (map_sum id (\<lambda>r. r\<lparr>q_pricing_model :=
                 (q_pricing_model r)\<lparr>pm_machine_key := or_str (Some mk) ''BLENDED''\<rparr>\<rparr>))
          (run_quote_engine tm f ma la ia (Some ''BLENDED'')) \<and>
      (\<forall>r. fst (run_quote_engine tm f ma la ia (Some mk)) = Inr r \<longrightarrow>
         pm_machine_cm3_per_hr (q_pricing_model r) = 46.0 \<and>
         pm_hourly_rate (q_pricing_model r) = 8.0 \<and>
         pm_machine_label (q_pricing_model r) = ''Blended (FF 5M Pro + Kobra S1)'' \<and>
         dbg_cm3_per_hr_used (q_debug r) = 46.0)) \<and>
   (mat \<notin> set (keys MATERIAL_RATES) \<longrightarrow>
      run_quote_engine tm f (Some mat) la ia mca =
        apfst (map_sum id (\<lambda>r. r\<lparr>q_material := or_str (Some mat) ''PLA''\<rparr>))
          (run_quote_engine tm f (Some ''PLA'') la ia mca) \<and>
      (\<forall>r mesh0. fst (run_quote_engine tm f (Some mat) la ia mca) = Inr r \<and>
         load tm (file_data f) (remove_char CHR ''.'' (ext_of (name_of f))) = Inr mesh0 \<longrightarrow>
         dbg_material_speed_factor (q_debug r) = 1.00 \<and>
         q_est_material_g r = py_round (volume (cleanup tm mesh0) / 1000 * 1.24) 1 \<and>
         q_price_usd r =
           price 0.025 (volume (cleanup tm mesh0) / 1000 * 1.24)
             (estimate_time_hours (volume (cleanup tm mesh0) / 1000) (or_float la 0.20)
                (or_int ia 20) (pm_machine_cm3_per_hr (q_pricing_model r)) 1.00)
             (pm_hourly_rate (q_pricing_model r))))"
proof (intro conjI impI allI)
  assume mk: "mk \<notin> set (keys MACHINE_PROFILES)"
  show "run_quote_engine tm f ma la ia (Some mk) =
        apfst (map_sum id (\<lambda>r. r\<lparr>q_pricing_model :=
                 (q_pricing_model r)\<lparr>pm_machine_key := or_str (Some mk) ''BLENDED''\<rparr>\<rparr>))
          (run_quote_engine tm f ma la ia (Some ''BLENDED''))"
    using mk by (rule unknown_machine_run)
  fix r
  assume acc: "fst (run_quote_engine tm f ma la ia (Some mk)) = Inr r"
  from acc obtain mesh0 bbox_mm where
    ext: "ext_of (name_of f) = ''.stl'' \<or> ext_of (name_of f) = ''.obj''" and
    ld: "load tm (file_data f) (remove_char CHR ''.'' (ext_of (name_of f))) = Inr mesh0" and
    ne: "\<not> is_empty mesh0" and bb: "extents (cleanup tm mesh0) = Some bbox_mm"
    by (rule run_InrE)
  have k: "dict_get MACHINE_PROFILES (or_str (Some mk) ''BLENDED'') b =
           (if mk = [] then dict_get MACHINE_PROFILES ''BLENDED'' b else b)" for b
    using mk by (simp add: or_str_def dict_get_unknown)
  note flds = run_quoted_fields(7,8) [OF ext ld ne bb acc, unfolded k]
  show "pm_machine_cm3_per_hr (q_pricing_model r) = 46.0"
    "pm_hourly_rate (q_pricing_model r) = 8.0"
    "pm_machine_label (q_pricing_model r) = ''Blended (FF 5M Pro + Kobra S1)''"
    "dbg_cm3_per_hr_used (q_debug r) = 46.0"
    using flds by (simp_all add: dict_get_default_keys)
next
  assume mat: "mat \<notin> set (keys MATERIAL_RATES)"
  then have mat': "mat \<notin> set (keys DENSITY_G_CM3)" "mat \<notin> set (keys MATERIAL_PRESETS)"
    by (simp_all add: material_tables_same_keys)
  show "run_quote_engine tm f (Some mat) la ia mca =
        apfst (map_sum id (\<lambda>r. r\<lparr>q_material := or_str (Some mat) ''PLA''\<rparr>))
          (run_quote_engine tm f (Some ''PLA'') la ia mca)"
    using mat mat' by (rule unknown_material_run)
  fix r mesh0
  assume "fst (run_quote_engine tm f (Some mat) la ia mca) = Inr r \<and>
         load tm (file_data f) (remove_char CHR ''.'' (ext_of (name_of f))) = Inr mesh0"
  then have acc: "fst (run_quote_engine tm f (Some mat) la ia mca) = Inr r" and
    ld0: "load tm (file_data f) (remove_char CHR ''.'' (ext_of (name_of f))) = Inr mesh0"
    by simp_all
  from acc obtain mesh1 bbox_mm where
    ext: "ext_of (name_of f) = ''.stl'' \<or> ext_of (name_of f) = ''.obj''" and
    ld1: "load tm (file_data f) (remove_char CHR ''.'' (ext_of (name_of f))) = Inr mesh1" and
    ne1: "\<not> is_empty mesh1" and bb1: "extents (cleanup tm mesh1) = Some bbox_mm"
    by (rule run_InrE)
  from ld1 ld0 have eq: "mesh1 = mesh0" by simp
  note ld = ld1 [unfolded eq] and ne = ne1 [unfolded eq] and bb = bb1 [unfolded eq]
  have k: "dict_get MATERIAL_RATES (or_str (Some mat) ''PLA'') b1 =
             (if mat = [] then dict_get MATERIAL_RATES ''PLA'' b1 else b1)"
     "dict_get DENSITY_G_CM3 (or_str (Some mat) ''PLA'') b2 =
             (if mat = [] then dict_get DENSITY_G_CM3 ''PLA'' b2 else b2)"
     "dict_get MATERIAL_PRESETS (or_str (Some mat) ''PLA'') b3 =
             (if mat = [] then dict_get MATERIAL_PRESETS ''PLA'' b3 else b3)"
     for b1 b2 b3
    using mat mat' by (simp_all add: or_str_def dict_get_unknown)
  note flds = run_quoted_fields(4,6,7,8) [OF ext ld ne bb acc, unfolded k]
  show "dbg_material_speed_factor (q_debug r) = 1.00"
    using flds(4) by (simp add: dict_get_default_keys)
  show "q_est_material_g r = py_round (volume (cleanup tm mesh0) / 1000 * 1.24) 1"
    using flds(1) by (simp add: dict_get_default_keys)
  show "q_price_usd r =
           price 0.025 (volume (cleanup tm mesh0) / 1000 * 1.24)
             (estimate_time_hours (volume (cleanup tm mesh0) / 1000) (or_float la 0.20)
                (or_int ia 20) (pm_machine_cm3_per_hr (q_pricing_model r)) 1.00)
             (pm_hourly_rate (q_pricing_model r))"
    using flds(2,3) by (simp add: dict_get_default_keys)
qed

theorem C5_unknown_keys_witness:
  "map_sum id (\<lambda>r. (pm_machine_cm3_per_hr (q_pricing_model r), pm_hourly_rate (q_pricing_model r),
                    dbg_material_speed_factor (q_debug r), q_est_material_g r))
     (fst (run_quote_engine (sample_trimesh cube_mesh) (sample_file ''cube.stl'')
             (Some ''ABS'') None None (Some ''Prusa MK4''))) = Inr (46, 8, 1, 155)"
proof -
  let ?tm = "sample_trimesh cube_mesh" and ?f = "sample_file ''cube.stl''"
  obtain r where r: "run_quote_engine ?tm ?f (Some ''ABS'') None None (Some ''Prusa MK4'') =
       (Inr r, [Read_file, Load_mesh])"
    by (rule sample_run_quoted [of cube_mesh]) (simp_all add: cube_mesh_def)
  then have acc: "fst (run_quote_engine ?tm ?f (Some ''ABS'') None None (Some ''Prusa MK4'')) = Inr r"
    by simp
  have mk: "''Prusa MK4'' \<notin> set (keys MACHINE_PROFILES)"
    by (simp add: keys_def MACHINE_PROFILES_def)
  have mat: "''ABS'' \<notin> set (keys MATERIAL_RATES)"
    by (simp add: keys_def MATERIAL_RATES_def)
  have ld: "load ?tm (file_data ?f) (remove_char CHR ''.'' (ext_of (name_of ?f))) = Inr cube_mesh"
    by (rule load_sample(1))
  from C5_unknown_keys [of "''Prusa MK4''" ?tm ?f "Some ''ABS''" None None "''ABS''" "Some ''Prusa MK4''"]
    mk mat acc ld
  have "pm_machine_cm3_per_hr (q_pricing_model r) = 46.0 \<and>
        pm_hourly_rate (q_pricing_model r) = 8.0 \<and>
        dbg_material_speed_factor (q_debug r) = 1.00 \<and>
        q_est_material_g r = py_round (volume (cleanup ?tm cube_mesh) / 1000 * 1.24) 1"
    by blast
  then have "pm_machine_cm3_per_hr (q_pricing_model r) = 46 \<and>
        pm_hourly_rate (q_pricing_model r) = 8 \<and>
        dbg_material_speed_factor (q_debug r) = 1 \<and> q_est_material_g r = 155"
    by (simp add: cleanup_sample cube_mesh_def py_round_def round_half_even_def)
  with acc show ?thesis by simp
qed

section \<open>Extensions\<close>

lemma drop_rfind:
  assumes "c \<in> set p"
  shows "drop (nat (rfind c p)) p = c # rev (takeWhile (\<lambda>x. x \<noteq> c) (rev p))"
proof -
  let ?t = "takeWhile (\<lambda>x. x \<noteq> c) (rev p)" and ?d = "dropWhile (\<lambda>x. x \<noteq> c) (rev p)"
  from assms have "?d \<noteq> []" by simp
  then obtain d' where d: "?d = hd ?d # d'" by (cases ?d) auto
  have "hd ?d = c" using hd_dropWhile [OF \<open>?d \<noteq> []\<close>] by simp
  with d have d2: "?d = c # d'" by simp
  have "rev p = ?t @ c # d'" using takeWhile_dropWhile_id [of "\<lambda>x. x \<noteq> c" "rev p"] d2 by simp
  then have "rev (rev p) = rev (?t @ c # d')" by simp
  then have p: "p = rev d' @ c # rev ?t" by simp
  then have "length p = length d' + 1 + length ?t"
    by (metis add.assoc add.commute length_Cons length_append length_rev plus_1_eq_Suc)
  then have "nat (rfind c p) = length d'" using assms by (simp add: rfind_def)
  then have "drop (nat (rfind c p)) p = drop (length (rev d')) (rev d' @ c # rev ?t)"
    using p by simp
  then show ?thesis by simp
qed

lemma rfind_absent: "c \<notin> set p \<Longrightarrow> rfind c p = - 1"
  by (simp add: rfind_def)

lemma rfind_ge: "- 1 \<le> rfind c p"
proof (cases "c \<in> set p")
  case True
  let ?t = "takeWhile (\<lambda>x. x \<noteq> c) (rev p)" and ?d = "dropWhile (\<lambda>x. x \<noteq> c) (rev p)"
  from True have "?d \<noteq> []" by simp
  then have "0 < length ?d" by simp
  moreover have "length (?t @ ?d) = length (rev p)"
    by (simp only: takeWhile_dropWhile_id)
  then have "length ?t + length ?d = length p"
    by (simp only: length_append length_rev)
  ultimately have "length ?t < length p" by linarith
  with True show ?thesis by (simp add: rfind_def)
next
  case False
  then show ?thesis by (simp add: rfind_def)
qed

lemma snd_splitext:
  "snd (splitext p) = [] \<or>
   (CHR ''.'' \<in> set p \<and>
    snd (splitext p) = CHR ''.'' # rev (takeWhile (\<lambda>x. x \<noteq> CHR ''.'') (rev p)))"
proof (cases "CHR ''.'' \<in> set p")
  case True
  then show ?thesis by (simp add: splitext_def Let_def drop_rfind)
next
  case False
  then have "rfind CHR ''.'' p = - 1" by (rule rfind_absent)
  moreover have "- 1 \<le> rfind CHR ''/'' p" by (rule rfind_ge)
  ultimately show ?thesis by (simp add: splitext_def Let_def)
qed

lemma lower_dot: "lower (CHR ''.'' # s) = CHR ''.'' # lower s"
  by (simp add: lower_def lower_char_def)

lemma engine_ext_validator_ext:
  assumes "ext_of name = ''.stl'' \<or> ext_of name = ''.obj''"
  shows "CHR ''.'' \<in> set name \<and> lower (last (rsplit1 CHR ''.'' name)) \<in> set ALLOWED_EXTS"
proof -
  from assms have "snd (splitext name) \<noteq> []" by (auto simp: ext_of_def lower_def)
  with snd_splitext [of name] have dot: "CHR ''.'' \<in> set name" and
    s: "snd (splitext name) = CHR ''.'' # rev (takeWhile (\<lambda>x. x \<noteq> CHR ''.'') (rev name))"
    by auto
  from dot have l: "last (rsplit1 CHR ''.'' name) = rev (takeWhile (\<lambda>x. x \<noteq> CHR ''.'') (rev name))"
    by (simp add: rsplit1_def)
  from assms s have "lower (rev (takeWhile (\<lambda>x. x \<noteq> CHR ''.'') (rev name))) = ''stl'' \<or>
     lower (rev (takeWhile (\<lambda>x. x \<noteq> CHR ''.'') (rev name))) = ''obj''"
    by (simp add: ext_of_def lower_dot)
  with dot l show ?thesis by (auto simp: ALLOWED_EXTS_def)
qed

text \<open>
  Claim C9. When the text after the last dot of the file name, in lower case, is neither
  \<^verbatim>\<open>stl\<close> nor \<^verbatim>\<open>obj\<close> (or the name has no dot), the upload validator rejects
  the file, and the engine, given a file of that name, raises the unsupported-format
  error with an empty trace: the file is not read and the loader is not called. The
  engine does the same for every file whose extension by \<^verbatim>\<open>os.path.splitext\<close> is
  neither \<^verbatim>\<open>.stl\<close> nor \<^verbatim>\<open>.obj\<close>.
\<close>

theorem C9_unsupported_extension:
  assumes "up_name u = Some name" and "file_name f = Some name"
    and "(if CHR ''.'' \<in> set name then lower (last (rsplit1 CHR ''.'' name)) else [])
           \<notin> set ALLOWED_EXTS"
  shows "validate_file u = Inl (ValidationError ''Unsupported file type. Upload STL or OBJ.'') \<and>
         run_quote_engine tm f ma la ia mca =
           (Inl (ValueError ''Unsupported file type. Upload STL or OBJ.''), []) \<and>
         (ext_of (name_of g) \<notin> set [''.stl'', ''.obj''] \<longrightarrow>
            run_quote_engine tm g ma la ia mca =
              (Inl (ValueError ''Unsupported file type. Upload STL or OBJ.''), []))"
proof (intro conjI impI)
  show "validate_file u = Inl (ValidationError ''Unsupported file type. Upload STL or OBJ.'')"
    using assms(1,3) by (simp add: validate_file_def Let_def)
  have n: "name_of f = name" using assms(2) by (simp add: name_of_def)
  have "\<not> (ext_of name = ''.stl'' \<or> ext_of name = ''.obj'')"
    using engine_ext_validator_ext [of name] assms(3) by auto
  then show "run_quote_engine tm f ma la ia mca =
           (Inl (ValueError ''Unsupported file type. Upload STL or OBJ.''), [])"
    using run_unsupported [of f tm ma la ia mca] n by simp
  show "run_quote_engine tm g ma la ia mca =
           (Inl (ValueError ''Unsupported file type. Upload STL or OBJ.''), [])"
    if "ext_of (name_of g) \<notin> set [''.stl'', ''.obj'']"
    using that run_unsupported [of g tm ma la ia mca] by simp
qed

theorem C9_unsupported_extension_witness:
  "validate_file \<lparr>up_name = Some ''photo.png'', up_size = Some 2048,
                  up_content_type = Some ''image/png''\<rparr> =
     Inl (ValidationError ''Unsupported file type. Upload STL or OBJ.'') \<and>
   run_quote_engine (sample_trimesh cube_mesh) (sample_file ''photo.png'') None None None None =
     (Inl (ValueError ''Unsupported file type. Upload STL or OBJ.''), []) \<and>
   run_quote_engine (sample_trimesh cube_mesh) (sample_file ''.stl'') None None None None =
     (Inl (ValueError ''Unsupported file type. Upload STL or OBJ.''), [])"
proof -
  have v: "(if CHR ''.'' \<in> set ''photo.png'' then lower (last (rsplit1 CHR ''.'' ''photo.png'')) else [])
           \<notin> set ALLOWED_EXTS"
    by (simp add: rsplit1_def lower_def lower_char_def ALLOWED_EXTS_def)
  have e: "ext_of (name_of (sample_file ''.stl'')) \<notin> set [''.stl'', ''.obj'']"
    by (simp add: ext_of_def name_of_def sample_file_def splitext_def rfind_def lower_def)
  from C9_unsupported_extension [OF _ _ v,
      where u = "\<lparr>up_name = Some ''photo.png'', up_size = Some 2048,
                   up_content_type = Some ''image/png''\<rparr>"
        and f = "sample_file ''photo.png''" and g = "sample_file ''.stl''"
        and tm = "sample_trimesh cube_mesh" and ma = None and la = None and ia = None
        and mca = None] e
  show ?thesis by (simp add: sample_file_def)
qed

section \<open>Batch tiers\<close>


lemma tier_loop_discount: "map discount (tier_loop b ps) = map snd ps"
  by (induction b ps rule: tier_loop.induct) (simp_all add: Let_def)



text \<open>
  Claim C7. When both lists of the environment convert, and their lengths differ, the
  discounts become zeros, one per tier: no error is raised, every row has discount 0
  and there is one row per tier. When the lengths agree the discounts are kept.
\<close>

theorem C7_length_mismatch:
  assumes "emap (py_int bi)
             (split_on CHR '','' (environ_get environ ''BATCH_TIERS'' ''1,10,25,50,100'')) = Inr ts"
    and "emap (py_float bi)
             (split_on CHR '','' (environ_get environ ''DISCOUNTS'' ''0,0.05,0.08,0.12,0.15'')) = Inr ds"
  shows "(length ds \<noteq> length ts \<longrightarrow>
            tiers_from_env bi environ = Inr (ts, replicate (length ts) 0) \<and>
            batch_tiers bi environ single =
              Inr (tier_rows (q_price_usd single) ts (replicate (length ts) 0)) \<and>
            length (tier_rows (q_price_usd single) ts (replicate (length ts) 0)) = length ts \<and>
            list_all (\<lambda>row. discount row = 0)
              (tier_rows (q_price_usd single) ts (replicate (length ts) 0))) \<and>
         (length ds = length ts \<longrightarrow>
            tiers_from_env bi environ = Inr (ts, ds) \<and>
            batch_tiers bi environ single = Inr (tier_rows (q_price_usd single) ts ds))"
proof -
  have t: "tiers_from_env bi environ =
      Inr (ts, if length ds \<noteq> length ts then replicate (length ts) 0 else ds)"
    using assms by (simp add: tiers_from_env_def ebind_def)
  have d: "map discount (tier_rows b ts (replicate (length ts) 0)) = replicate (length ts) 0" for b
    unfolding tier_rows_def tier_loop_discount
    by (simp add: map_snd_zip)
  have "list_all (\<lambda>row. discount row = 0) (tier_rows b ts (replicate (length ts) 0))" for b
  proof -
    have "\<forall>x \<in> set (map discount (tier_rows b ts (replicate (length ts) 0))). x = 0"
      unfolding d by simp
    then show ?thesis by (simp add: list_all_iff)
  qed
  moreover have "length (tier_rows b ts (replicate (length ts) 0)) = length ts" for b
    using arg_cong [OF d [of b], of length] by simp
  ultimately show ?thesis
    using t by (simp add: batch_tiers_def Let_def ebind_def)
qed

theorem C7_length_mismatch_witness:
  "tiers_from_env sample_builtins [''DISCOUNTS'' \<mapsto> ''0.05,0.08''] =
     Inr ([1, 10, 25, 50, 100], [0, 0, 0, 0, 0]) \<and>
   tiers_from_env sample_builtins Map.empty =
     Inr ([1, 10, 25, 50, 100], [0, 0.05, 0.08, 0.12, 0.15])"
proof -
  have ts: "emap (py_int sample_builtins)
      (split_on CHR '','' (environ_get e ''BATCH_TIERS'' ''1,10,25,50,100'')) =
        Inr [1, 10, 25, 50, 100]"
    if "e ''BATCH_TIERS'' = None" for e
    using that by (simp add: environ_get_def sample_builtins_def ebind_def)
  have ds1: "emap (py_float sample_builtins)
      (split_on CHR '','' (environ_get [''DISCOUNTS'' \<mapsto> ''0.05,0.08''] ''DISCOUNTS''
         ''0,0.05,0.08,0.12,0.15'')) = Inr [0.05, 0.08]"
    by (simp add: environ_get_def sample_builtins_def ebind_def)
  have ds2: "emap (py_float sample_builtins)
      (split_on CHR '','' (environ_get Map.empty ''DISCOUNTS'' ''0,0.05,0.08,0.12,0.15'')) =
        Inr [0, 0.05, 0.08, 0.12, 0.15]"
    by (simp add: environ_get_def sample_builtins_def ebind_def)
  have "tiers_from_env sample_builtins [''DISCOUNTS'' \<mapsto> ''0.05,0.08''] =
     Inr ([1, 10, 25, 50, 100], replicate (length [1, 10, 25, 50, 100 :: int]) 0)"
    using C7_length_mismatch [OF ts ds1] by simp
  moreover have "tiers_from_env sample_builtins Map.empty =
     Inr ([1, 10, 25, 50, 100], [0, 0.05, 0.08, 0.12, 0.15])"
    using C7_length_mismatch [OF ts ds2] by simp
  ultimately show ?thesis by (simp add: numeral_eq_Suc)
qed

end
